theory Spec2Isabelle
  imports Complex_Main
begin

section \<open>JavaScript values\<close>

text \<open>
  The record store is written in JavaScript, so its behaviour rests on the language's
  dynamic values and coercions. The embedding covers the primitive values and
  \<open>Date\<close> objects, which are what the store itself creates and what the query parser
  can supply:
  \<^item> numbers are exact rationals together with \<open>NaN\<close> and the two infinities; the
    rounding of IEEE doubles and the sign of zero are not modelled;
  \<^item> strings are lists of 8-bit characters (the ASCII fragment of JavaScript strings);
  \<^item> a \<open>Date\<close> object is its time value in milliseconds, \<open>None\<close> for an invalid
    date. Two \<open>Date\<close> objects are taken to be distinct references;
  \<^item> plain objects and arrays as field values are outside the embedding;
  \<^item> an object used as a dictionary is an association list of its own properties in
    insertion order; properties inherited from \<open>Object.prototype\<close> and the special
    ordering of integer-like keys are outside the embedding.
\<close>

datatype jsnum = Fin rat | PosInf | NegInf | NaN

datatype jsval = Undefined | Null | Bool bool | Num jsnum | Str string | DateObj "int option"

text \<open>
  What the host supplies and the repository does not define: \<open>Date.parse\<close> (its
  accepted formats are implementation-defined beyond ISO 8601), the two renderings of a
  valid date, and the regular-expression engine (\<open>None\<close> is a \<open>SyntaxError\<close> of the
  pattern). They are parameters of every operation that can reach them.
\<close>

record host =
  date_parse :: "string \<Rightarrow> int option"
  date_toString :: "int \<Rightarrow> string"
  date_toISOString :: "int \<Rightarrow> string"
  regexp_test :: "string \<Rightarrow> string \<Rightarrow> bool option"

datatype error = Error string | TypeError string | SyntaxError string

subsection \<open>typeof, truthiness\<close>

fun js_typeof :: "jsval \<Rightarrow> string" where
  "js_typeof Undefined = ''undefined''"
| "js_typeof Null = ''object''"
| "js_typeof (Bool b) = ''boolean''"
| "js_typeof (Num n) = ''number''"
| "js_typeof (Str s) = ''string''"
| "js_typeof (DateObj t) = ''object''"

fun truthy :: "jsval \<Rightarrow> bool" where
  "truthy Undefined = False"
| "truthy Null = False"
| "truthy (Bool b) = b"
| "truthy (Num (Fin r)) = (r \<noteq> 0)"
| "truthy (Num NaN) = False"
| "truthy (Num n) = True"
| "truthy (Str s) = (s \<noteq> [])"
| "truthy (DateObj t) = True"

subsection \<open>Numbers and strings\<close>

definition digit_chars :: string where
  "digit_chars = ''0123456789abcdefghijklmnopqrstuvwxyz''"

function show_nat :: "nat \<Rightarrow> string" where
  "show_nat n = (if n < 10 then [digit_chars ! n] else show_nat (n div 10) @ [digit_chars ! (n mod 10)])"
  by pat_completeness auto
termination
  by (relation "measure id") auto

text \<open>
  \<open>Number::toString\<close> for a positive finite number: \<open>s\<close> has \<open>k\<close> digits, is not
  divisible by ten, and the number is \<open>s * 10 ^ (n - k)\<close>. A rational without a finite
  decimal expansion is no double; its expansion is cut after \<open>frac_fuel\<close> digits.
\<close>

function strip_zeros :: "nat \<Rightarrow> nat \<Rightarrow> nat \<times> nat" where
  "strip_zeros s z = (if s \<noteq> 0 \<and> s mod 10 = 0 then strip_zeros (s div 10) (Suc z) else (s, z))"
  by pat_completeness auto
termination
  by (relation "measure fst") auto

fun frac_scale :: "nat \<Rightarrow> rat \<Rightarrow> nat \<Rightarrow> nat \<times> nat" where
  "frac_scale 0 x j = (nat \<lfloor>x\<rfloor>, j)"
| "frac_scale (Suc fuel) x j =
     (if of_int \<lfloor>x\<rfloor> = x then (nat \<lfloor>x\<rfloor>, j) else frac_scale fuel (x * 10) (Suc j))"

definition frac_fuel :: nat where
  "frac_fuel = 1100"

definition pos_to_string :: "rat \<Rightarrow> string" where
  "pos_to_string x =
     (let (s0, j) = frac_scale frac_fuel x 0;
          (s, e) = (if j = 0 then (let (s1, z) = strip_zeros s0 0 in (s1, int z)) else (s0, - int j));
          ds = show_nat s;
          k = int (length ds);
          n = k + e
      in if k \<le> n \<and> n \<le> 21 then ds @ replicate (nat (n - k)) (CHR ''0'')
         else if 0 < n \<and> n \<le> 21 then take (nat n) ds @ ''.'' @ drop (nat n) ds
         else if - 6 < n \<and> n \<le> 0 then ''0.'' @ replicate (nat (- n)) (CHR ''0'') @ ds
         else (if k = 1 then ds else take 1 ds @ ''.'' @ drop 1 ds)
              @ ''e'' @ (if n - 1 < 0 then ''-'' else ''+'') @ show_nat (nat \<bar>n - 1\<bar>))"

fun number_to_string :: "jsnum \<Rightarrow> string" where
  "number_to_string NaN = ''NaN''"
| "number_to_string PosInf = ''Infinity''"
| "number_to_string NegInf = ''-Infinity''"
| "number_to_string (Fin x) =
     (if x = 0 then ''0'' else if x < 0 then ''-'' @ pos_to_string (- x) else pos_to_string x)"

text \<open>\<open>String(v)\<close>.\<close>

fun to_string :: "host \<Rightarrow> jsval \<Rightarrow> string" where
  "to_string h Undefined = ''undefined''"
| "to_string h Null = ''null''"
| "to_string h (Bool b) = (if b then ''true'' else ''false'')"
| "to_string h (Num n) = number_to_string n"
| "to_string h (Str s) = s"
| "to_string h (DateObj None) = ''Invalid Date''"
| "to_string h (DateObj (Some t)) = date_toString h t"

text \<open>
  \<open>Number(s)\<close> on a string (\<open>StringToNumber\<close>): surrounding white space is trimmed,
  the empty string is \<open>0\<close>, then \<open>Infinity\<close> with an optional sign, an unsigned
  hexadecimal, octal or binary literal, or a signed decimal literal with an optional
  fraction and exponent; anything else is \<open>NaN\<close>.
\<close>

definition is_space :: "char \<Rightarrow> bool" where
  "is_space c = (c \<in> set [CHR '' '', CHR 0x09, CHR 0x0A, CHR 0x0B, CHR 0x0C, CHR 0x0D])"

definition trim :: "string \<Rightarrow> string" where
  "trim s = rev (dropWhile is_space (rev (dropWhile is_space s)))"

fun index_of :: "'a \<Rightarrow> 'a list \<Rightarrow> nat option" where
  "index_of x [] = None"
| "index_of x (y # ys) = (if x = y then Some 0 else map_option Suc (index_of x ys))"

definition to_lower_char :: "char \<Rightarrow> char" where
  "to_lower_char c =
     (case index_of c ''ABCDEFGHIJKLMNOPQRSTUVWXYZ'' of
        Some i \<Rightarrow> ''abcdefghijklmnopqrstuvwxyz'' ! i
      | None \<Rightarrow> c)"

definition to_upper_char :: "char \<Rightarrow> char" where
  "to_upper_char c =
     (case index_of c ''abcdefghijklmnopqrstuvwxyz'' of
        Some i \<Rightarrow> ''ABCDEFGHIJKLMNOPQRSTUVWXYZ'' ! i
      | None \<Rightarrow> c)"

definition toLowerCase :: "string \<Rightarrow> string" where
  "toLowerCase s = map to_lower_char s"

definition toUpperCase :: "string \<Rightarrow> string" where
  "toUpperCase s = map to_upper_char s"

definition digit_of :: "nat \<Rightarrow> char \<Rightarrow> nat option" where
  "digit_of radix c =
     (case index_of (to_lower_char c) digit_chars of
        Some d \<Rightarrow> if d < radix then Some d else None
      | None \<Rightarrow> None)"

definition is_digit :: "nat \<Rightarrow> char \<Rightarrow> bool" where
  "is_digit radix c = (digit_of radix c \<noteq> None)"

definition digits_value :: "nat \<Rightarrow> string \<Rightarrow> nat" where
  "digits_value radix s = foldl (\<lambda>acc c. acc * radix + (case digit_of radix c of Some d \<Rightarrow> d | None \<Rightarrow> 0)) 0 s"

definition radix_literal :: "nat \<Rightarrow> string \<Rightarrow> jsnum" where
  "radix_literal radix s =
     (if s \<noteq> [] \<and> list_all (is_digit radix) s then Fin (of_nat (digits_value radix s)) else NaN)"

definition exponent_part :: "string \<Rightarrow> int option" where
  "exponent_part s =
     (if s = [] then Some 0
      else if hd s \<in> set ''eE'' then
        (let r = tl s;
             (neg, ds) = (if r \<noteq> [] \<and> hd r = CHR ''-'' then (True, tl r)
                          else if r \<noteq> [] \<and> hd r = CHR ''+'' then (False, tl r)
                          else (False, r))
         in if ds \<noteq> [] \<and> list_all (is_digit 10) ds
            then Some (if neg then - int (digits_value 10 ds) else int (digits_value 10 ds))
            else None)
      else None)"

definition pow10 :: "int \<Rightarrow> rat" where
  "pow10 e = (if 0 \<le> e then 10 ^ nat e else 1 / 10 ^ nat (- e))"

definition unsigned_decimal :: "string \<Rightarrow> jsnum" where
  "unsigned_decimal s =
     (if s = ''Infinity'' then PosInf
      else
        let ip = takeWhile (is_digit 10) s;
            r1 = dropWhile (is_digit 10) s;
            dot = (r1 \<noteq> [] \<and> hd r1 = CHR ''.'');
            fp = (if dot then takeWhile (is_digit 10) (tl r1) else []);
            r2 = (if dot then dropWhile (is_digit 10) (tl r1) else r1)
        in if ip = [] \<and> fp = [] then NaN
           else case exponent_part r2 of
                  None \<Rightarrow> NaN
                | Some e \<Rightarrow>
                    Fin ((of_nat (digits_value 10 ip)
                          + of_nat (digits_value 10 fp) / 10 ^ length fp) * pow10 e))"

fun negate :: "jsnum \<Rightarrow> jsnum" where
  "negate (Fin r) = Fin (- r)"
| "negate PosInf = NegInf"
| "negate NegInf = PosInf"
| "negate NaN = NaN"

definition string_to_number :: "string \<Rightarrow> jsnum" where
  "string_to_number str =
     (let s = trim str
      in if s = [] then Fin 0
         else if take 2 s \<in> set [''0x'', ''0X''] then radix_literal 16 (drop 2 s)
         else if take 2 s \<in> set [''0o'', ''0O''] then radix_literal 8 (drop 2 s)
         else if take 2 s \<in> set [''0b'', ''0B''] then radix_literal 2 (drop 2 s)
         else if hd s = CHR ''-'' then negate (unsigned_decimal (tl s))
         else if hd s = CHR ''+'' then unsigned_decimal (tl s)
         else unsigned_decimal s)"

text \<open>\<open>Number(v)\<close>; a date converts to its time value.\<close>

fun to_number :: "jsval \<Rightarrow> jsnum" where
  "to_number Undefined = NaN"
| "to_number Null = Fin 0"
| "to_number (Bool b) = (if b then Fin 1 else Fin 0)"
| "to_number (Num n) = n"
| "to_number (Str s) = string_to_number s"
| "to_number (DateObj None) = NaN"
| "to_number (DateObj (Some t)) = Fin (of_int t)"

text \<open>The global \<open>isNaN(v)\<close>.\<close>

definition isNaN :: "jsval \<Rightarrow> bool" where
  "isNaN v = (to_number v = NaN)"



subsection \<open>Equality, comparison, arithmetic\<close>

fun num_eq :: "jsnum \<Rightarrow> jsnum \<Rightarrow> bool" where
  "num_eq NaN y = False"
| "num_eq x NaN = False"
| "num_eq x y = (x = y)"

fun num_lt :: "jsnum \<Rightarrow> jsnum \<Rightarrow> bool option" where
  "num_lt NaN y = None"
| "num_lt x NaN = None"
| "num_lt (Fin a) (Fin b) = Some (a < b)"
| "num_lt x PosInf = Some (x \<noteq> PosInf)"
| "num_lt PosInf y = Some False"
| "num_lt NegInf y = Some (y \<noteq> NegInf)"
| "num_lt x NegInf = Some False"

text \<open>
  \<open>a === b\<close>. Two \<open>Date\<close> objects are different references (see above), so they
  are never strictly equal.
\<close>

fun strict_eq :: "jsval \<Rightarrow> jsval \<Rightarrow> bool" where
  "strict_eq Undefined Undefined = True"
| "strict_eq Null Null = True"
| "strict_eq (Bool a) (Bool b) = (a = b)"
| "strict_eq (Num a) (Num b) = num_eq a b"
| "strict_eq (Str a) (Str b) = (a = b)"
| "strict_eq a b = False"

text \<open>
  \<open>a == b\<close>: \<open>null\<close> and \<open>undefined\<close> equal each other and nothing else, a
  boolean is compared as a number, a number and a string are compared as numbers, and a
  date is compared with a primitive through its string rendering.
\<close>

fun prim_loose_eq :: "jsval \<Rightarrow> jsval \<Rightarrow> bool" where
  "prim_loose_eq (Num a) (Str b) = num_eq a (string_to_number b)"
| "prim_loose_eq (Str a) (Num b) = num_eq (string_to_number a) b"
| "prim_loose_eq a b = strict_eq a b"

fun to_prim :: "host \<Rightarrow> jsval \<Rightarrow> jsval" where
  "to_prim h (Bool b) = Num (if b then Fin 1 else Fin 0)"
| "to_prim h (DateObj t) = Str (to_string h (DateObj t))"
| "to_prim h v = v"

definition nullish :: "jsval \<Rightarrow> bool" where
  "nullish v = (v = Undefined \<or> v = Null)"

definition loose_eq :: "host \<Rightarrow> jsval \<Rightarrow> jsval \<Rightarrow> bool" where
  "loose_eq h a b =
     (if nullish a \<or> nullish b then nullish a \<and> nullish b
      else if js_typeof a = ''object'' \<and> js_typeof b = ''object'' then False
      else prim_loose_eq (to_prim h a) (to_prim h b))"

text \<open>
  \<open>a < b\<close> (\<open>None\<close> is the undefined outcome of a comparison with \<open>NaN\<close>): two
  strings are compared by code units, anything else as numbers.
\<close>

fun str_lt :: "string \<Rightarrow> string \<Rightarrow> bool" where
  "str_lt a [] = False"
| "str_lt [] (y # ys) = True"
| "str_lt (x # xs) (y # ys) =
     (if of_char x < (of_char y :: nat) then True
      else if of_char x = (of_char y :: nat) then str_lt xs ys else False)"

fun js_lt :: "jsval \<Rightarrow> jsval \<Rightarrow> bool option" where
  "js_lt (Str a) (Str b) = Some (str_lt a b)"
| "js_lt a b = num_lt (to_number a) (to_number b)"

definition js_gt :: "jsval \<Rightarrow> jsval \<Rightarrow> bool" where
  "js_gt a b = (js_lt b a = Some True)"

definition js_less :: "jsval \<Rightarrow> jsval \<Rightarrow> bool" where
  "js_less a b = (js_lt a b = Some True)"

definition js_ge :: "jsval \<Rightarrow> jsval \<Rightarrow> bool" where
  "js_ge a b = (js_lt a b = Some False)"

definition js_le :: "jsval \<Rightarrow> jsval \<Rightarrow> bool" where
  "js_le a b = (js_lt b a = Some False)"

text \<open>\<open>Math.max(a, b)\<close> on two values, and \<open>n + 1\<close> on a number.\<close>

definition Math_max :: "jsval \<Rightarrow> jsval \<Rightarrow> jsnum" where
  "Math_max a b =
     (let x = to_number a; y = to_number b
      in if x = NaN \<or> y = NaN then NaN
         else if num_lt x y = Some True then y else x)"

fun add_one :: "jsnum \<Rightarrow> jsnum" where
  "add_one (Fin r) = Fin (r + 1)"
| "add_one n = n"

text \<open>
  \<open>new Date(v)\<close>: a date is copied, a string is parsed by the host, any other value
  is taken as a number of milliseconds and clipped to the range of time values.
\<close>

definition time_clip :: "jsnum \<Rightarrow> int option" where
  "time_clip n =
     (case n of
        Fin r \<Rightarrow> if \<bar>r\<bar> \<le> 8640000000000000 then Some (if r < 0 then \<lceil>r\<rceil> else \<lfloor>r\<rfloor>) else None
      | _ \<Rightarrow> None)"

fun new_Date :: "host \<Rightarrow> jsval \<Rightarrow> jsval" where
  "new_Date h (DateObj t) = DateObj t"
| "new_Date h (Str s) = DateObj (date_parse h s)"
| "new_Date h v = DateObj (time_clip (to_number v))"

text \<open>\<open>Date.parse(v)\<close>: the argument is first converted to a string.\<close>

definition Date_parse :: "host \<Rightarrow> jsval \<Rightarrow> jsnum" where
  "Date_parse h v =
     (case date_parse h (to_string h v) of None \<Rightarrow> NaN | Some t \<Rightarrow> Fin (of_int t))"

subsection \<open>Objects as dictionaries\<close>

type_synonym 'a dict = "(string \<times> 'a) list"

type_synonym jsobj = "jsval dict"

text \<open>\<open>o[k] = v\<close>: an existing property keeps its place, a new one goes last.\<close>

fun dict_set :: "string \<Rightarrow> 'a \<Rightarrow> 'a dict \<Rightarrow> 'a dict" where
  "dict_set k v [] = [(k, v)]"
| "dict_set k v ((k', v') # ps) = (if k' = k then (k, v) # ps else (k', v') # dict_set k v ps)"

text \<open>\<open>k in o\<close> and \<open>o[k]\<close> (\<open>undefined\<close> for a missing property).\<close>

definition has_key :: "'a dict \<Rightarrow> string \<Rightarrow> bool" where
  "has_key d k = (map_of d k \<noteq> None)"

definition obj_get :: "jsobj \<Rightarrow> string \<Rightarrow> jsval" where
  "obj_get r k = (case map_of r k of None \<Rightarrow> Undefined | Some v \<Rightarrow> v)"

text \<open>The object spread \<open>{ ...a, ...b }\<close>.\<close>

definition spread :: "jsobj \<Rightarrow> jsobj \<Rightarrow> jsobj" where
  "spread a b = fold (\<lambda>(k, v). dict_set k v) b (fold (\<lambda>(k, v). dict_set k v) a [])"


section \<open>The record store (Table.js)\<close>

subsection \<open>Schema\<close>

text \<open>
  A column definition as the caller writes it: every property may be missing
  (\<open>None\<close>, or \<open>Undefined\<close> for the two that hold a value).
\<close>

record rawdef =
  raw_type :: "string option"
  raw_required :: "bool option"
  raw_primaryKey :: "bool option"
  raw_unique :: "bool option"
  raw_autoIncrement :: "bool option"
  raw_defaultValue :: jsval
  raw_foreignKey :: jsval

record coldef =
  ctype :: string
  required :: bool
  isPrimaryKey :: bool
  unique :: bool
  autoIncrement :: bool
  defaultValue :: jsval
  foreignKey :: jsval

definition or_false :: "bool option \<Rightarrow> bool" where
  "or_false b = (case b of Some True \<Rightarrow> True | _ \<Rightarrow> False)"

definition normalizeColumn :: "rawdef \<Rightarrow> coldef" where
  "normalizeColumn c =
     (let n = \<lparr> ctype = (case raw_type c of Some ty \<Rightarrow> if ty = [] then ''string'' else ty
                                             | None \<Rightarrow> ''string''),
                 required = or_false (raw_required c),
                 isPrimaryKey = or_false (raw_primaryKey c),
                 unique = or_false (raw_unique c),
                 autoIncrement = or_false (raw_autoIncrement c),
                 defaultValue = raw_defaultValue c,
                 foreignKey = (if truthy (raw_foreignKey c) then raw_foreignKey c else Null) \<rparr>
      in if isPrimaryKey n then n\<lparr>required := True, unique := True\<rparr> else n)"

definition normalizeSchema :: "rawdef dict \<Rightarrow> coldef dict" where
  "normalizeSchema schema = fold (\<lambda>(column, c). dict_set column (normalizeColumn c)) schema []"

type_synonym index = "nat list dict"

record table =
  name :: string
  schema :: "coldef dict"
  data :: "jsobj list"
  indexes :: "index dict"
  primaryKey :: "string option"

text \<open>
  The persisted files of a namespace, each held as the value \<open>JSON.parse\<close> reads back
  from it and keyed by the collection's name: \<open>name_schema.json\<close>, \<open>name.json\<close> and
  \<open>name_index.json\<close>. Collection names are taken not to produce clashing file names
  (no name contains \<open>.json\<close> or ends in \<open>_schema\<close> or \<open>_index\<close>); writes do not fail.
\<close>

record files =
  schema_files :: "rawdef dict dict"
  data_files :: "jsobj list dict"
  index_files :: "index dict dict"

fun findPrimaryKey_in :: "coldef dict \<Rightarrow> string option" where
  "findPrimaryKey_in [] = None"
| "findPrimaryKey_in ((column, d) # cs) = (if isPrimaryKey d then Some column else findPrimaryKey_in cs)"

definition findPrimaryKey :: "table \<Rightarrow> string option" where
  "findPrimaryKey t = findPrimaryKey_in (schema t)"

text \<open>
  \<open>if (this.primaryKey)\<close>: there is a key column and its name is not the empty string.
  Used as a property name, a missing key is the string \<open>null\<close>.
\<close>

definition has_pk :: "table \<Rightarrow> bool" where
  "has_pk t = (case primaryKey t of None \<Rightarrow> False | Some k \<Rightarrow> k \<noteq> [])"

definition pk_name :: "table \<Rightarrow> string" where
  "pk_name t = (case primaryKey t of None \<Rightarrow> ''null'' | Some k \<Rightarrow> k)"

subsection \<open>Type validation and coercion\<close>

text \<open>No value of the embedding is an array, so \<open>Array.isArray\<close> is always false.\<close>

definition isArray :: "jsval \<Rightarrow> bool" where
  "isArray v = False"

definition validateType :: "host \<Rightarrow> jsval \<Rightarrow> string \<Rightarrow> bool" where
  "validateType h v ty =
     (if v = Null \<or> v = Undefined then True
      else if ty = ''string'' then js_typeof v = ''string''
      else if ty = ''number'' then js_typeof v = ''number'' \<and> \<not> isNaN v
      else if ty = ''boolean'' then js_typeof v = ''boolean''
      else if ty = ''date'' then Date_parse h v \<noteq> NaN
      else if ty = ''object'' then js_typeof v = ''object'' \<and> \<not> isArray v
      else if ty = ''array'' then isArray v
      else True)"

definition coerceValue :: "host \<Rightarrow> jsval \<Rightarrow> string \<Rightarrow> jsval" where
  "coerceValue h v ty =
     (if v = Null \<or> v = Undefined then v
      else if ty = ''string'' then Str (to_string h v)
      else if ty = ''number'' then (let num = to_number v in if num = NaN then Null else Num num)
      else if ty = ''boolean'' then Bool (truthy v)
      else if ty = ''date'' then new_Date h v
      else v)"

subsection \<open>Searching\<close>

text \<open>
  A condition on a column is a literal, compared for equality, or an operator mapping.
\<close>

datatype cond = Lit jsval | Ops "jsval dict"

definition replace_char :: "char \<Rightarrow> string \<Rightarrow> string \<Rightarrow> string" where
  "replace_char c rep s = concat (map (\<lambda>x. if x = c then rep else [x]) s)"

definition compare :: "host \<Rightarrow> jsval \<Rightarrow> string \<Rightarrow> jsval \<Rightarrow> error + bool" where
  "compare h v operator compareTo =
     (if operator = ''='' then Inr (loose_eq h v compareTo)
      else if operator = ''!='' then Inr (\<not> loose_eq h v compareTo)
      else if operator = ''>'' then Inr (js_gt v compareTo)
      else if operator = ''<'' then Inr (js_less v compareTo)
      else if operator = ''>='' then Inr (js_ge v compareTo)
      else if operator = ''<='' then Inr (js_le v compareTo)
      else if operator = ''LIKE'' then
        (case compareTo of
           Str p \<Rightarrow>
             (let pattern = replace_char (CHR ''_'') ''.'' (replace_char (CHR ''%'') ''.*'' p)
              in case regexp_test h (''^'' @ pattern @ ''$'') (to_string h v) of
                   None \<Rightarrow> Inl (SyntaxError ''Invalid regular expression'')
                 | Some b \<Rightarrow> Inr b)
         | _ \<Rightarrow> Inl (TypeError ''compareTo.replace is not a function''))
      else Inr False)"

fun matches_ops :: "host \<Rightarrow> jsval \<Rightarrow> jsval dict \<Rightarrow> error + bool" where
  "matches_ops h v [] = Inr True"
| "matches_ops h v ((op, val) # ops) =
     (case compare h v op val of
        Inl e \<Rightarrow> Inl e
      | Inr b \<Rightarrow> if \<not> b then Inr False else matches_ops h v ops)"

text \<open>
  The filter predicate of the full scan. A literal \<open>null\<close> or date has
  \<open>typeof\<close> \<open>object\<close> and no enumerable property, so it constrains nothing.
\<close>

fun matches :: "host \<Rightarrow> jsobj \<Rightarrow> cond dict \<Rightarrow> error + bool" where
  "matches h record [] = Inr True"
| "matches h record ((key, Ops ops) # conditions) =
     (case matches_ops h (obj_get record key) ops of
        Inl e \<Rightarrow> Inl e
      | Inr b \<Rightarrow> if \<not> b then Inr False else matches h record conditions)"
| "matches h record ((key, Lit condition) # conditions) =
     (if js_typeof condition = ''object'' then matches h record conditions
      else if \<not> strict_eq (obj_get record key) condition then Inr False
      else matches h record conditions)"

fun full_scan :: "host \<Rightarrow> cond dict \<Rightarrow> jsobj list \<Rightarrow> error + jsobj list" where
  "full_scan h conditions [] = Inr []"
| "full_scan h conditions (record # rs) =
     (case matches h record conditions of
        Inl e \<Rightarrow> Inl e
      | Inr b \<Rightarrow>
          (case full_scan h conditions rs of
             Inl e \<Rightarrow> Inl e
           | Inr out \<Rightarrow> Inr (if b then record # out else out)))"

text \<open>
  The property key a condition value turns into when it indexes a bucket: an operator
  mapping is a plain object and renders as \<open>[object Object]\<close>.
\<close>

fun cond_key :: "host \<Rightarrow> cond \<Rightarrow> string" where
  "cond_key h (Lit v) = to_string h v"
| "cond_key h (Ops ops) = ''[object Object]''"

text \<open>\<open>{ ...this.data[i] }\<close>: spreading \<open>undefined\<close> gives the empty object.\<close>

definition row_copy :: "jsobj list \<Rightarrow> nat \<Rightarrow> jsobj" where
  "row_copy d i = (if i < length d then d ! i else [])"

definition bucket :: "table \<Rightarrow> string \<Rightarrow> string \<Rightarrow> nat list option" where
  "bucket t col key = (case map_of (indexes t) col of None \<Rightarrow> None | Some ix \<Rightarrow> map_of ix key)"

definition find' :: "host \<Rightarrow> table \<Rightarrow> cond dict \<Rightarrow> error + jsobj list" where
  "find' h t conditions =
     (if length conditions = 0 then Inr (data t)
      else if length conditions = 1 \<and> has_key (indexes t) (fst (hd conditions)) then
        (let col = fst (hd conditions); v = snd (hd conditions)
         in case bucket t col (cond_key h v) of
              Some indices \<Rightarrow> Inr (map (row_copy (data t)) indices)
            | None \<Rightarrow> Inr [])
      else full_scan h conditions (data t))"

definition findOne :: "host \<Rightarrow> table \<Rightarrow> cond dict \<Rightarrow> error + jsobj option" where
  "findOne h t conditions =
     (case find' h t conditions of
        Inl e \<Rightarrow> Inl e
      | Inr results \<Rightarrow> Inr (if length results > 0 then Some (hd results) else None))"

definition findAll :: "table \<Rightarrow> jsobj list" where
  "findAll t = data t"


subsection \<open>Validation\<close>

text \<open>A name between single quotes, as the messages print it.\<close>

definition quote :: "string \<Rightarrow> string" where
  "quote s = CHR 0x27 # s @ [CHR 0x27]"

fun join :: "string \<Rightarrow> string list \<Rightarrow> string" where
  "join sep [] = []"
| "join sep [x] = x"
| "join sep (x # y # ys) = x @ sep @ join sep (y # ys)"

text \<open>
  One pass of the loop over the schema's columns: the state is the list of error messages
  and the validated record built so far. An exception of the uniqueness lookup leaves the
  loop (\<open>Inl\<close>).
\<close>

definition validate_column ::
  "host \<Rightarrow> table \<Rightarrow> jsobj \<Rightarrow> string \<times> coldef \<Rightarrow> string list \<times> jsobj \<Rightarrow> error + (string list \<times> jsobj)" where
  "validate_column h t record cd st =
     (let column = fst cd; def = snd cd; errors = fst st; result = snd st;
          v = obj_get record column;
          hasValue = has_key record column
      in if autoIncrement def \<and> \<not> hasValue then Inr (errors, result)
         else if required def \<and> \<not> hasValue \<and> defaultValue def = Undefined then
           Inr (errors @ [''Required column '' @ quote column @ '' is missing''], result)
         else if \<not> hasValue \<and> defaultValue def \<noteq> Undefined then
           Inr (errors, dict_set column (coerceValue h (defaultValue def) (ctype def)) result)
         else if \<not> hasValue then Inr (errors, result)
         else if \<not> validateType h v (ctype def) then
           Inr (errors @ [''Invalid type for '' @ quote column @ '': expected '' @ ctype def], result)
         else
           let result' = dict_set column (coerceValue h v (ctype def)) result
           in if unique def \<and> has_key (indexes t) column then
                (case findOne h t [(column, Lit (obj_get result' column))] of
                   Inl e \<Rightarrow> Inl e
                 | Inr existing \<Rightarrow>
                     (case existing of
                        Some ex \<Rightarrow>
                          if \<not> strict_eq (obj_get ex (pk_name t)) (obj_get record (pk_name t))
                          then Inr (errors @ [''Duplicate value for unique column '' @ quote column], result')
                          else Inr (errors, result')
                      | None \<Rightarrow> Inr (errors, result')))
              else Inr (errors, result'))"

fun validate_loop ::
  "host \<Rightarrow> table \<Rightarrow> jsobj \<Rightarrow> coldef dict \<Rightarrow> string list \<times> jsobj \<Rightarrow> error + (string list \<times> jsobj)" where
  "validate_loop h t record [] st = Inr st"
| "validate_loop h t record (cd # cds) st =
     (case validate_column h t record cd st of
        Inl e \<Rightarrow> Inl e
      | Inr st' \<Rightarrow> validate_loop h t record cds st')"

definition validateRecord :: "host \<Rightarrow> table \<Rightarrow> jsobj \<Rightarrow> error + jsobj" where
  "validateRecord h t record =
     (case validate_loop h t record (schema t) ([], []) of
        Inl e \<Rightarrow> Inl e
      | Inr (errors, result) \<Rightarrow>
          if length errors > 0 then Inl (Error (join '', '' errors)) else Inr result)"

text \<open>
  The messages one column contributes, read off the rules of validation rather than off
  the loop: a required column without a value and without a default is missing (an
  absent auto-increment column is left to insert); a supplied value of the wrong type is
  a type mismatch; a supplied value of a unique, indexed column is a duplicate when the
  first record in the bucket of its coerced value has another primary key than the
  record being validated.
\<close>

definition holds_duplicate :: "host \<Rightarrow> table \<Rightarrow> jsobj \<Rightarrow> string \<Rightarrow> jsval \<Rightarrow> bool" where
  "holds_duplicate h t record column v =
     (case bucket t column (to_string h v) of
        Some (i # rest) \<Rightarrow>
          \<not> strict_eq (obj_get (row_copy (data t) i) (pk_name t)) (obj_get record (pk_name t))
      | _ \<Rightarrow> False)"

definition column_errors :: "host \<Rightarrow> table \<Rightarrow> jsobj \<Rightarrow> string \<times> coldef \<Rightarrow> string list" where
  "column_errors h t record cd =
     (let column = fst cd; def = snd cd; v = obj_get record column
      in if \<not> has_key record column then
           (if \<not> autoIncrement def \<and> required def \<and> defaultValue def = Undefined
            then [''Required column '' @ quote column @ '' is missing''] else [])
         else if \<not> validateType h v (ctype def) then
           [''Invalid type for '' @ quote column @ '': expected '' @ ctype def]
         else if unique def \<and> has_key (indexes t) column
                 \<and> holds_duplicate h t record column (coerceValue h v (ctype def))
         then [''Duplicate value for unique column '' @ quote column] else [])"

text \<open>
  What one column contributes to the validated record; it depends on the record and the
  column's definition only, not on the table.
\<close>

definition column_result :: "host \<Rightarrow> jsobj \<Rightarrow> string \<times> coldef \<Rightarrow> jsobj \<Rightarrow> jsobj" where
  "column_result h record cd result =
     (let column = fst cd; def = snd cd; v = obj_get record column
      in if \<not> has_key record column then
           (if \<not> autoIncrement def \<and> \<not> (required def \<and> defaultValue def = Undefined)
               \<and> defaultValue def \<noteq> Undefined
            then dict_set column (coerceValue h (defaultValue def) (ctype def)) result
            else result)
         else if \<not> validateType h v (ctype def) then result
         else dict_set column (coerceValue h v (ctype def)) result)"

definition record_errors :: "host \<Rightarrow> table \<Rightarrow> jsobj \<Rightarrow> string list" where
  "record_errors h t record = concat (map (column_errors h t record) (schema t))"

subsection \<open>Persistence\<close>

text \<open>
  What \<open>JSON.parse(JSON.stringify(v))\<close> makes of a field: \<open>undefined\<close> is left out
  of the object (\<open>None\<close>), a number that is not finite becomes \<open>null\<close>, and a date
  becomes its ISO string (an invalid date \<open>null\<close>).
\<close>

fun json_value :: "host \<Rightarrow> jsval \<Rightarrow> jsval option" where
  "json_value h Undefined = None"
| "json_value h (Num (Fin r)) = Some (Num (Fin r))"
| "json_value h (Num n) = Some Null"
| "json_value h (DateObj None) = Some Null"
| "json_value h (DateObj (Some t)) = Some (Str (date_toISOString h t))"
| "json_value h v = Some v"

definition json_row :: "host \<Rightarrow> jsobj \<Rightarrow> jsobj" where
  "json_row h r = concat (map (\<lambda>(k, v). case json_value h v of None \<Rightarrow> [] | Some w \<Rightarrow> [(k, w)]) r)"

definition save :: "host \<Rightarrow> table \<Rightarrow> files \<Rightarrow> files" where
  "save h t fs = fs\<lparr>data_files := dict_set (name t) (map (json_row h) (data t)) (data_files fs)\<rparr>"

definition saveIndexes :: "table \<Rightarrow> files \<Rightarrow> files" where
  "saveIndexes t fs = fs\<lparr>index_files := dict_set (name t) (indexes t) (index_files fs)\<rparr>"

definition load :: "files \<Rightarrow> table \<Rightarrow> table" where
  "load fs t = (case map_of (data_files fs) (name t) of None \<Rightarrow> t | Some parsed \<Rightarrow> t\<lparr>data := parsed\<rparr>)"

definition loadIndexes :: "files \<Rightarrow> table \<Rightarrow> table" where
  "loadIndexes fs t = (case map_of (index_files fs) (name t) of None \<Rightarrow> t | Some parsed \<Rightarrow> t\<lparr>indexes := parsed\<rparr>)"

subsection \<open>Index maintenance\<close>

text \<open>
  \<open>if (!ix[value]) ix[value] = []; ix[value].push(i)\<close>: the bucket's key is the
  value's string rendering.
\<close>

definition push_pos :: "host \<Rightarrow> jsval \<Rightarrow> nat \<Rightarrow> index \<Rightarrow> index" where
  "push_pos h v i ix =
     (let key = to_string h v
      in dict_set key ((case map_of ix key of None \<Rightarrow> [] | Some ps \<Rightarrow> ps) @ [i]) ix)"

text \<open>
  \<open>if (value !== undefined && ix[value]) ix[value] = ix[value].filter(i => i !== idx)\<close>.
\<close>

definition drop_pos :: "host \<Rightarrow> jsval \<Rightarrow> nat \<Rightarrow> index \<Rightarrow> index" where
  "drop_pos h v idx ix =
     (let key = to_string h v
      in case map_of ix key of
           None \<Rightarrow> ix
         | Some ps \<Rightarrow> if v \<noteq> Undefined then dict_set key (filter (\<lambda>i. i \<noteq> idx) ps) ix else ix)"

definition add_pos :: "host \<Rightarrow> jsval \<Rightarrow> nat \<Rightarrow> index \<Rightarrow> index" where
  "add_pos h v i ix = (if v \<noteq> Undefined then push_pos h v i ix else ix)"

definition build_index :: "host \<Rightarrow> string \<Rightarrow> jsobj list \<Rightarrow> index" where
  "build_index h column d =
     fold (\<lambda>i ix. add_pos h (obj_get (d ! i) column) i ix) [0..<length d] []"

definition rebuildIndex :: "host \<Rightarrow> string \<Rightarrow> table \<Rightarrow> table" where
  "rebuildIndex h column t = t\<lparr>indexes := dict_set column (build_index h column (data t)) (indexes t)\<rparr>"

definition createIndex :: "host \<Rightarrow> string \<Rightarrow> table \<Rightarrow> files \<Rightarrow> (error + bool) \<times> table \<times> files" where
  "createIndex h column t fs =
     (if \<not> has_key (schema t) column
      then (Inl (Error (''Column '' @ quote column @ '' does not exist'')), t, fs)
      else let t' = rebuildIndex h column (t\<lparr>indexes := dict_set column [] (indexes t)\<rparr>)
           in (Inr True, t', saveIndexes t' fs))"

text \<open>The constructor.\<close>

definition new_Table :: "host \<Rightarrow> string \<Rightarrow> rawdef dict \<Rightarrow> files \<Rightarrow> table \<times> files" where
  "new_Table h nm sch fs =
     (let t0 = \<lparr> name = nm, schema = normalizeSchema sch, data = [], indexes = [], primaryKey = None \<rparr>;
          t1 = t0\<lparr>primaryKey := findPrimaryKey t0\<rparr>;
          t2 = loadIndexes fs (load fs t1)
      in if has_pk t2 \<and> \<not> has_key (indexes t2) (pk_name t2)
         then (let r = createIndex h (pk_name t2) t2 fs in (fst (snd r), snd (snd r)))
         else (t2, fs))"


text \<open>
  An index of a column agrees with the rows when every row that holds a value in the
  column has its position in the bucket of that value, and every position in a bucket
  is that of a present row holding the bucket's value.
\<close>

definition index_agrees :: "host \<Rightarrow> jsobj list \<Rightarrow> string \<Rightarrow> index \<Rightarrow> bool" where
  "index_agrees h d col ix =
     ((\<forall>i < length d. obj_get (d ! i) col \<noteq> Undefined \<longrightarrow>
          (\<exists>ps. map_of ix (to_string h (obj_get (d ! i) col)) = Some ps \<and> i \<in> set ps))
      \<and> (\<forall>key ps. map_of ix key = Some ps \<longrightarrow>
             (\<forall>p \<in> set ps. p < length d \<and> obj_get (d ! p) col \<noteq> Undefined
                           \<and> to_string h (obj_get (d ! p) col) = key)))"

definition index_consistent :: "host \<Rightarrow> table \<Rightarrow> bool" where
  "index_consistent h t = (\<forall>(col, ix) \<in> set (indexes t). index_agrees h (data t) col ix)"

subsection \<open>insert\<close>

text \<open>
  \<open>this.data.reduce((max, row) => Math.max(max, row[column] || 0), 0)\<close>.
\<close>

definition or_zero :: "jsval \<Rightarrow> jsval" where
  "or_zero v = (if truthy v then v else Num (Fin 0))"

definition column_max :: "string \<Rightarrow> jsobj list \<Rightarrow> jsnum" where
  "column_max column d = foldl (\<lambda>mx row. Math_max (Num mx) (or_zero (obj_get row column))) (Fin 0) d"



definition auto_step :: "table \<Rightarrow> string \<times> coldef \<Rightarrow> jsobj \<Rightarrow> jsobj" where
  "auto_step t = (\<lambda>(column, def) validated.
             if autoIncrement def \<and> \<not> has_key validated column
             then dict_set column (Num (add_one (column_max column (data t)))) validated
             else validated)"

definition auto_increment :: "table \<Rightarrow> jsobj \<Rightarrow> jsobj" where
  "auto_increment t validated = fold (auto_step t) (schema t) validated"

definition index_row :: "host \<Rightarrow> jsobj \<Rightarrow> nat \<Rightarrow> index dict \<Rightarrow> index dict" where
  "index_row h validated i ixs = map (\<lambda>(col, ix). (col, add_pos h (obj_get validated col) i ix)) ixs"

definition insert' :: "host \<Rightarrow> jsobj \<Rightarrow> table \<Rightarrow> files \<Rightarrow> (error + jsobj) \<times> table \<times> files" where
  "insert' h record t fs =
     (case validateRecord h t record of
        Inl e \<Rightarrow> (Inl e, t, fs)
      | Inr validated0 \<Rightarrow>
          let validated = auto_increment t validated0;
              t1 = t\<lparr>data := data t @ [validated]\<rparr>;
              i = length (data t1) - 1;
              t2 = t1\<lparr>indexes := index_row h validated i (indexes t1)\<rparr>
          in (Inr validated, t2, saveIndexes t2 (save h t2 fs)))"

subsection \<open>update and delete\<close>

text \<open>
  \<open>this.data.findIndex(r => ...)\<close> for one found record. The records that
  \<open>find\<close> returns are copies, so without a primary key the identity test
  \<open>r === record\<close> never holds.
\<close>

fun findIndex :: "('a \<Rightarrow> bool) \<Rightarrow> 'a list \<Rightarrow> nat option" where
  "findIndex p [] = None"
| "findIndex p (x # xs) = (if p x then Some 0 else map_option Suc (findIndex p xs))"

definition position_of :: "table \<Rightarrow> jsobj \<Rightarrow> nat option" where
  "position_of t record =
     findIndex (\<lambda>r. if has_pk t then strict_eq (obj_get r (pk_name t)) (obj_get record (pk_name t))
                     else False)
               (data t)"

definition positions :: "table \<Rightarrow> jsobj list \<Rightarrow> nat list" where
  "positions t found = concat (map (\<lambda>record. case position_of t record of None \<Rightarrow> [] | Some idx \<Rightarrow> [idx]) found)"

definition remove_entries :: "host \<Rightarrow> nat list \<Rightarrow> table \<Rightarrow> string \<Rightarrow> index \<Rightarrow> index" where
  "remove_entries h indices t col ix = fold (\<lambda>idx. drop_pos h (obj_get (data t ! idx) col) idx) indices ix"

definition add_entries :: "host \<Rightarrow> nat list \<Rightarrow> table \<Rightarrow> string \<Rightarrow> index \<Rightarrow> index" where
  "add_entries h indices t col ix = fold (\<lambda>idx. add_pos h (obj_get (data t ! idx) col) idx) indices ix"

text \<open>
  The loop that writes the rows back. It validates against the table as it stands at
  that moment; an exception leaves the rows already written in place.
\<close>

fun update_rows :: "host \<Rightarrow> jsobj \<Rightarrow> nat list \<Rightarrow> table \<Rightarrow> nat \<Rightarrow> (error + nat) \<times> table" where
  "update_rows h updates [] t updated = (Inr updated, t)"
| "update_rows h updates (idx # indices) t updated =
     (let newRecord = spread (data t ! idx) updates
      in case validateRecord h t newRecord of
           Inl e \<Rightarrow> (Inl e, t)
         | Inr validated \<Rightarrow>
             (case (if has_pk t \<and> has_key updates (pk_name t)
                    then findOne h t [(pk_name t, Lit (obj_get validated (pk_name t)))]
                    else Inr None) of
                Inl e \<Rightarrow> (Inl e, t)
              | Inr (Some existing) \<Rightarrow> (Inl (Error ''Duplicate primary key value''), t)
              | Inr None \<Rightarrow>
                  update_rows h updates indices (t\<lparr>data := (data t)[idx := validated]\<rparr>) (updated + 1)))"

definition update :: "host \<Rightarrow> cond dict \<Rightarrow> jsobj \<Rightarrow> table \<Rightarrow> files \<Rightarrow> (error + nat) \<times> table \<times> files" where
  "update h conditions updates t fs =
     (case find' h t conditions of
        Inl e \<Rightarrow> (Inl e, t, fs)
      | Inr toUpdate \<Rightarrow>
          let indices = positions t toUpdate;
              t1 = t\<lparr>indexes := map (\<lambda>(col, ix). (col, remove_entries h indices t col ix)) (indexes t)\<rparr>
          in case update_rows h updates indices t1 0 of
               (Inl e, t2) \<Rightarrow> (Inl e, t2, fs)
             | (Inr updated, t2) \<Rightarrow>
                 let t3 = t2\<lparr>indexes := map (\<lambda>(col, ix). (col, add_entries h indices t2 col ix)) (indexes t2)\<rparr>
                 in (Inr updated, t3, if updated > 0 then saveIndexes t3 (save h t3 fs) else fs))"

text \<open>\<open>this.data.splice(idx, 1)\<close>.\<close>

definition splice1 :: "nat \<Rightarrow> 'a list \<Rightarrow> 'a list" where
  "splice1 idx xs = take idx xs @ drop (Suc idx) xs"

text \<open>
  The loop over the indexed columns of \<open>delete\<close>: the positions are struck from the
  column's buckets and the column's index is rebuilt, both while the rows are still in
  the data sequence.
\<close>

definition strip_and_rebuild :: "host \<Rightarrow> nat list \<Rightarrow> string \<Rightarrow> table \<Rightarrow> table" where
  "strip_and_rebuild h indices col t =
     rebuildIndex h col
       (t\<lparr>indexes := map (\<lambda>(c, ix). if c = col then (c, remove_entries h indices t col ix) else (c, ix))
                          (indexes t)\<rparr>)"

definition delete :: "host \<Rightarrow> cond dict \<Rightarrow> table \<Rightarrow> files \<Rightarrow> (error + nat) \<times> table \<times> files" where
  "delete h conditions t fs =
     (case find' h t conditions of
        Inl e \<Rightarrow> (Inl e, t, fs)
      | Inr toDelete \<Rightarrow>
          let indices = rev (sort (positions t toDelete));
              t1 = fold (strip_and_rebuild h indices) (map fst (indexes t)) t;
              t2 = t1\<lparr>data := fold splice1 indices (data t1)\<rparr>
          in (Inr (length indices), t2,
              if length indices > 0 then saveIndexes t2 (save h t2 fs) else fs))"

section \<open>The collection catalog (Database.js)\<close>

record database =
  tables :: "table dict"
  files :: files

text \<open>
  \<open>JSON.parse(JSON.stringify(schema))\<close>: what the schema file holds.
\<close>

definition json_or_undefined :: "host \<Rightarrow> jsval \<Rightarrow> jsval" where
  "json_or_undefined h v = (case json_value h v of None \<Rightarrow> Undefined | Some w \<Rightarrow> w)"

definition json_schema :: "host \<Rightarrow> rawdef dict \<Rightarrow> rawdef dict" where
  "json_schema h sch =
     map (\<lambda>(column, c). (column, c\<lparr>raw_defaultValue := json_or_undefined h (raw_defaultValue c),
                                      raw_foreignKey := json_or_undefined h (raw_foreignKey c)\<rparr>)) sch"

text \<open>
  \<open>loadTables\<close>: every data file \<open>name.json\<close> that has a schema file beside it
  becomes a table. (An index file and a schema file end in \<open>.json\<close> too, but under
  the naming assumption no schema file matches the names derived from them.)
\<close>

definition load_table :: "host \<Rightarrow> string \<Rightarrow> database \<Rightarrow> database" where
  "load_table h tableName db =
     (case map_of (schema_files (files db)) tableName of
        None \<Rightarrow> db
      | Some sch \<Rightarrow>
          (let r = new_Table h tableName sch (files db)
           in db\<lparr>tables := dict_set tableName (fst r) (tables db), files := snd r\<rparr>))"

definition loadTables :: "host \<Rightarrow> database \<Rightarrow> database" where
  "loadTables h db = fold (load_table h) (map fst (data_files (files db))) db"

definition new_Database :: "host \<Rightarrow> files \<Rightarrow> database" where
  "new_Database h fs = loadTables h \<lparr> tables = [], files = fs \<rparr>"

definition createTable :: "host \<Rightarrow> string \<Rightarrow> rawdef dict \<Rightarrow> database \<Rightarrow> (error + table) \<times> database" where
  "createTable h tableName sch db =
     (if has_key (tables db) tableName
      then (Inl (Error (''Table '' @ quote tableName @ '' already exists'')), db)
      else let fs1 = (files db)\<lparr>schema_files := dict_set tableName (json_schema h sch) (schema_files (files db))\<rparr>;
               r = new_Table h tableName sch fs1
           in (Inr (fst r), db\<lparr>tables := dict_set tableName (fst r) (tables db), files := snd r\<rparr>))"

text \<open>
  A token read past the end of the token list is \<open>undefined\<close> (\<open>None\<close>); used as a
  property name or printed in a message it is the string \<open>undefined\<close>.
\<close>

definition token :: "string list \<Rightarrow> nat \<Rightarrow> string option" where
  "token tokens i = (if i < length tokens then Some (tokens ! i) else None)"

definition key_of :: "string option \<Rightarrow> string" where
  "key_of k = (case k of None \<Rightarrow> ''undefined'' | Some s \<Rightarrow> s)"

definition getTable :: "database \<Rightarrow> string option \<Rightarrow> error + table" where
  "getTable db tableName =
     (case map_of (tables db) (key_of tableName) of
        None \<Rightarrow> Inl (Error (''Table '' @ quote (key_of tableName) @ '' does not exist''))
      | Some t \<Rightarrow> Inr t)"







section \<open>The query parser (SQLParser.js)\<close>

text \<open>
  \<open>tokenize\<close>: parentheses and commas become tokens of their own, semicolons are
  dropped, and the text is split at white space, empty pieces left out. (Splitting at
  every white-space character instead of at every run of them only adds empty pieces.)
\<close>

fun pieces :: "string \<Rightarrow> string \<Rightarrow> string list" where
  "pieces cur [] = [cur]"
| "pieces cur (c # cs) = (if is_space c then cur # pieces [] cs else pieces (cur @ [c]) cs)"

text \<open>The tokens \<open>(\<close>, \<open>)\<close> and \<open>,\<close>.\<close>

definition lparen :: string where
  "lparen = [CHR 0x28]"

definition rparen :: string where
  "rparen = [CHR 0x29]"

definition comma :: string where
  "comma = [CHR 0x2C]"

definition tokenize :: "string \<Rightarrow> string list" where
  "tokenize sql =
     filter (\<lambda>tok. length tok > 0)
       (pieces []
          (filter (\<lambda>c. c \<noteq> CHR 0x3B)
             (replace_char (CHR 0x2C) [CHR 0x20, CHR 0x2C, CHR 0x20]
                (replace_char (CHR 0x29) [CHR 0x20, CHR 0x29, CHR 0x20]
                   (replace_char (CHR 0x28) [CHR 0x20, CHR 0x28, CHR 0x20] sql)))))"

subsection \<open>Literals\<close>

definition startsWith_quote :: "string \<Rightarrow> bool" where
  "startsWith_quote s = (s \<noteq> [] \<and> hd s = CHR 0x27)"

definition endsWith_quote :: "string \<Rightarrow> bool" where
  "endsWith_quote s = (s \<noteq> [] \<and> last s = CHR 0x27)"

text \<open>\<open>s.slice(1, -1)\<close>.\<close>

definition slice_inner :: "string \<Rightarrow> string" where
  "slice_inner s = butlast (tl s)"

text \<open>The coercion written out in the value loop of \<open>parseInsert\<close>.\<close>

definition insert_literal :: "string \<Rightarrow> jsval" where
  "insert_literal v =
     (if startsWith_quote v \<and> endsWith_quote v then Str (slice_inner v)
      else if \<not> isNaN (Str v) then Num (to_number (Str v))
      else if v = ''TRUE'' \<or> v = ''true'' then Bool True
      else if v = ''FALSE'' \<or> v = ''false'' then Bool False
      else if v = ''NULL'' then Null
      else Str v)"

text \<open>The coercion written out in \<open>parseCondition\<close>.\<close>

definition condition_literal :: "string \<Rightarrow> jsval" where
  "condition_literal v =
     (let parsedValue = Str v
      in if startsWith_quote v \<and> endsWith_quote v then Str (slice_inner v)
         else if \<not> isNaN (Str v) then Num (to_number (Str v))
         else if v = ''TRUE'' \<or> v = ''true'' then Bool True
         else if v = ''FALSE'' \<or> v = ''false'' then Bool False
         else if v = ''NULL'' then Null
         else parsedValue)"

text \<open>The coercion written out in the SET loop of \<open>parseUpdate\<close>.\<close>

definition update_literal :: "string \<Rightarrow> jsval" where
  "update_literal v =
     (if startsWith_quote v \<and> endsWith_quote v then Str (slice_inner v)
      else if \<not> isNaN (Str v) then Num (to_number (Str v))
      else if v = ''TRUE'' \<or> v = ''true'' then Bool True
      else if v = ''FALSE'' \<or> v = ''false'' then Bool False
      else if v = ''NULL'' then Null
      else Str v)"

text \<open>
  The coercion in the words of the specification, with the two spellings of each boolean
  that the code accepts: quoted text is a string without its quotes, a numeric-looking
  token is a number, \<open>TRUE\<close>, \<open>true\<close>, \<open>FALSE\<close> and \<open>false\<close> are booleans,
  \<open>NULL\<close> is null, and any other token is raw text.
\<close>

definition single_quoted :: "string \<Rightarrow> bool" where
  "single_quoted s = (s \<noteq> [] \<and> hd s = CHR 0x27 \<and> last s = CHR 0x27)"

definition numeric_looking :: "string \<Rightarrow> bool" where
  "numeric_looking s = (string_to_number s \<noteq> NaN)"

definition coerce_literal :: "string \<Rightarrow> jsval" where
  "coerce_literal s =
     (if single_quoted s then Str (butlast (tl s))
      else if numeric_looking s then Num (string_to_number s)
      else if s \<in> {''TRUE'', ''true''} then Bool True
      else if s \<in> {''FALSE'', ''false''} then Bool False
      else if s = ''NULL'' then Null
      else Str s)"

subsection \<open>The clauses\<close>

text \<open>
  \<open>parseCondition(tokens, start)\<close>: calling \<open>startsWith\<close> on a missing value
  token is a TypeError.
\<close>

definition parseCondition :: "string list \<Rightarrow> nat \<Rightarrow> error + cond dict" where
  "parseCondition tokens start =
     (let column = token tokens start;
          operator = token tokens (start + 1)
      in case token tokens (start + 2) of
           None \<Rightarrow> Inl (TypeError ''Cannot read properties of undefined'')
         | Some v \<Rightarrow> Inr [(key_of column, Ops [(key_of operator, condition_literal v)])])"

text \<open>\<open>if (tokens[i] === ',') i++\<close>, on the tokens from \<open>i\<close> on.\<close>

definition skip_comma :: "string list \<Rightarrow> string list" where
  "skip_comma ts = (if ts \<noteq> [] \<and> hd ts = comma then tl ts else ts)"

text \<open>
  The value loop of \<open>parseInsert\<close> on the tokens after \<open>VALUES (\<close>: it returns
  the values and the tokens from the closing parenthesis on, and ends in a TypeError when
  the tokens run out.
\<close>

function insert_values :: "string list \<Rightarrow> error + (jsval list \<times> string list)" where
  "insert_values [] = Inl (TypeError ''Cannot read properties of undefined'')"
| "insert_values (v # ts) =
     (if v = rparen then Inr ([], v # ts)
      else case insert_values (skip_comma ts) of
             Inl e \<Rightarrow> Inl e
           | Inr (vals, rest) \<Rightarrow> Inr (insert_literal v # vals, rest))"
  by pat_completeness auto
termination
  by (relation "measure length") (auto simp: skip_comma_def)

text \<open>
  The SET loop of \<open>parseUpdate\<close> on the tokens after \<open>SET\<close>: it returns the
  patch and the tokens from \<open>WHERE\<close> on.
\<close>

function set_clause :: "jsobj \<Rightarrow> string list \<Rightarrow> error + (jsobj \<times> string list)" where
  "set_clause updates [] = Inr (updates, [])"
| "set_clause updates (column # ts) =
     (if toUpperCase column = ''WHERE'' then Inr (updates, column # ts)
      else if token ts 0 \<noteq> Some ''='' then Inl (Error ''Expected = after column name'')
      else case token ts 1 of
             None \<Rightarrow> Inl (TypeError ''Cannot read properties of undefined'')
           | Some v \<Rightarrow> set_clause (dict_set column (update_literal v) updates) (skip_comma (drop 2 ts)))"
  by pat_completeness auto
termination
  by (relation "measure (\<lambda>(u, ts). length ts)") (auto simp: skip_comma_def)

text \<open>A list of tokens with a comma between each two.\<close>

fun comma_separated :: "string list \<Rightarrow> string list" where
  "comma_separated [] = []"
| "comma_separated [v] = [v]"
| "comma_separated (v # w # vs) = v # comma # comma_separated (w # vs)"

subsection \<open>SELECT\<close>














section \<open>Example data\<close>

text \<open>
  A host for examples that parse no date and match no pattern; its ISO rendering is
  that of the epoch.
\<close>

definition example_host :: host where
  "example_host =
     \<lparr> date_parse = (\<lambda>s. None),
       date_toString = (\<lambda>t. ''Thu Jan 01 1970 00:00:00 GMT+0000''),
       date_toISOString = (\<lambda>t. ''1970-01-01T00:00:00.000Z''),
       regexp_test = (\<lambda>p s. None) \<rparr>"

definition empty_files :: files where
  "empty_files = \<lparr> schema_files = [], data_files = [], index_files = [] \<rparr>"

text \<open>A column definition that gives a type and nothing else.\<close>

definition typed_column :: "string \<Rightarrow> rawdef" where
  "typed_column ty =
     \<lparr> raw_type = Some ty, raw_required = None, raw_primaryKey = None, raw_unique = None,
       raw_autoIncrement = None, raw_defaultValue = Undefined, raw_foreignKey = Undefined \<rparr>"

text \<open>The schema \<open>{ id: { type: 'number', primaryKey: true } }\<close>.\<close>

definition id_schema :: "rawdef dict" where
  "id_schema = [(''id'', (typed_column ''number'')\<lparr>raw_primaryKey := Some True\<rparr>)]"

text \<open>The table and files after a statement, whatever it returned.\<close>

definition after :: "'a \<times> table \<times> files \<Rightarrow> table \<times> files" where
  "after r = snd r"

text \<open>
  A fresh table \<open>t\<close> over \<open>id_schema\<close>, and the same table after
  \<open>insert({ id: 1 })\<close> and \<open>insert({ id: 2 })\<close>.
\<close>

definition fresh_table :: "table \<times> files" where
  "fresh_table = new_Table example_host ''t'' id_schema empty_files"

definition two_rows :: "table \<times> files" where
  "two_rows =
     (let s1 = after (insert' example_host [(''id'', Num (Fin 1))] (fst fresh_table) (snd fresh_table))
      in after (insert' example_host [(''id'', Num (Fin 2))] (fst s1) (snd s1)))"





text \<open>
  A catalog in which \<open>t\<close> was created over \<open>id_schema\<close> and given the rows
  \<open>{id: 1}\<close>, \<open>{id: 2}\<close> and \<open>{id: 3}\<close>.
\<close>

definition empty_db :: database where
  "empty_db = \<lparr> tables = [], files = empty_files \<rparr>"





section \<open>Verification\<close>

subsection \<open>The example table\<close>

lemma two_rows_data: "data (fst two_rows) = [[(''id'', Num (Fin 1))], [(''id'', Num (Fin 2))]]"
  by code_simp

lemma two_rows_indexes: "indexes (fst two_rows) = [(''id'', [(''1'', [0]), (''2'', [1])])]"
  by code_simp

subsection \<open>Dictionaries\<close>

lemma obj_get_dict_set: "obj_get (dict_set k v r) k' = (if k' = k then v else obj_get r k')"
  by (induction r) (auto simp: obj_get_def)

lemma has_key_dict_set: "has_key (dict_set k v r) k' = (k' = k \<or> has_key r k')"
  by (induction r) (auto simp: has_key_def split: if_splits)

lemma has_key_Cons: "has_key ((k1, v1) # u) k = (k = k1 \<or> has_key u k)"
  by (auto simp: has_key_def)

lemma map_of_dict_set: "map_of (dict_set k v r) k' = (if k' = k then Some v else map_of r k')"
  by (induction r) auto

subsection \<open>Index maintenance\<close>

lemma index_agrees_append:
  assumes "index_agrees h d col ix"
  shows "index_agrees h (d @ [row]) col (add_pos h (obj_get row col) (length d) ix)"
proof (cases "obj_get row col = Undefined")
  case True
  with assms show ?thesis
    by (auto simp: index_agrees_def add_pos_def nth_append less_Suc_eq)
next
  case False
  define k where "k = to_string h (obj_get row col)"
  define old where "old = (case map_of ix k of None \<Rightarrow> [] | Some ps \<Rightarrow> ps)"
  have ix': "add_pos h (obj_get row col) (length d) ix = dict_set k (old @ [length d]) ix"
    using False by (simp add: add_pos_def push_pos_def Let_def k_def old_def)
  have fwd: "\<And>i. i < length d \<Longrightarrow> obj_get (d ! i) col \<noteq> Undefined \<Longrightarrow>
          \<exists>ps. map_of ix (to_string h (obj_get (d ! i) col)) = Some ps \<and> i \<in> set ps"
    using assms by (simp add: index_agrees_def)
  have bwd: "\<And>key ps p. map_of ix key = Some ps \<Longrightarrow> p \<in> set ps \<Longrightarrow>
             p < length d \<and> obj_get (d ! p) col \<noteq> Undefined \<and> to_string h (obj_get (d ! p) col) = key"
    using assms unfolding index_agrees_def by blast
  have old: "\<And>p. p \<in> set old \<Longrightarrow>
             p < length d \<and> obj_get (d ! p) col \<noteq> Undefined \<and> to_string h (obj_get (d ! p) col) = k"
  proof -
    fix p assume p: "p \<in> set old"
    show "p < length d \<and> obj_get (d ! p) col \<noteq> Undefined \<and> to_string h (obj_get (d ! p) col) = k"
    proof (cases "map_of ix k")
      case None
      with p show ?thesis by (simp add: old_def)
    next
      case (Some ps)
      with p have "p \<in> set ps" by (simp add: old_def)
      from bwd [OF Some this] show ?thesis .
    qed
  qed
  have in_old: "\<And>ps i. map_of ix k = Some ps \<Longrightarrow> i \<in> set ps \<Longrightarrow> i \<in> set old"
    by (simp add: old_def)
  show ?thesis
    unfolding index_agrees_def ix'
  proof (intro conjI allI impI ballI)
    fix i
    assume i: "i < length (d @ [row])" and v: "obj_get ((d @ [row]) ! i) col \<noteq> Undefined"
    show "\<exists>ps. map_of (dict_set k (old @ [length d]) ix) (to_string h (obj_get ((d @ [row]) ! i) col)) = Some ps
              \<and> i \<in> set ps"
    proof (cases "i < length d")
      case True
      with v have "obj_get (d ! i) col \<noteq> Undefined" by (simp add: nth_append)
      from fwd [OF True this] obtain ps where
        ps: "map_of ix (to_string h (obj_get (d ! i) col)) = Some ps" "i \<in> set ps" by blast
      show ?thesis
      proof (cases "to_string h (obj_get (d ! i) col) = k")
        case same: True
        with ps in_old have "i \<in> set old" by simp
        with same True show ?thesis by (simp add: map_of_dict_set nth_append)
      next
        case False
        with ps True show ?thesis by (simp add: map_of_dict_set nth_append)
      qed
    next
      case False
      with i have "i = length d" by simp
      then show ?thesis by (simp add: map_of_dict_set k_def)
    qed
  next
    fix key ps p
    assume m: "map_of (dict_set k (old @ [length d]) ix) key = Some ps" and p: "p \<in> set ps"
    have "(p < length d \<and> obj_get (d ! p) col \<noteq> Undefined \<and> to_string h (obj_get (d ! p) col) = key)
          \<or> (p = length d \<and> key = k)"
    proof (cases "key = k")
      case True
      with m have "ps = old @ [length d]" by (simp add: map_of_dict_set)
      with p have "p \<in> set old \<or> p = length d" by auto
      with old True show ?thesis by blast
    next
      case False
      with m have "map_of ix key = Some ps" by (simp add: map_of_dict_set)
      from bwd [OF this p] show ?thesis by simp
    qed
    then show "p < length (d @ [row])"
      and "obj_get ((d @ [row]) ! p) col \<noteq> Undefined"
      and "to_string h (obj_get ((d @ [row]) ! p) col) = key"
      using \<open>obj_get row col \<noteq> Undefined\<close> by (auto simp: nth_append k_def)
  qed
qed

text \<open>
  A successful insert keeps every index in agreement with the rows.
\<close>

theorem insert_keeps_index_consistent:
  assumes "index_consistent h t" and "insert' h r t fs = (Inr stored, t', fs')"
  shows "index_consistent h t'"
proof -
  from assms(2) have d: "data t' = data t @ [stored]"
    and i: "indexes t' = index_row h stored (length (data t)) (indexes t)"
    by (auto simp: insert'_def Let_def split: sum.splits)
  show ?thesis
    using assms(1) index_agrees_append [of h "data t" _ _ stored]
    by (auto simp: index_consistent_def d i index_row_def)
qed


theorem insert_keeps_index_consistent_witness:
  "index_consistent example_host (fst fresh_table)
   \<and> fst (insert' example_host [(''id'', Num (Fin 1))] (fst fresh_table) (snd fresh_table))
       = Inr [(''id'', Num (Fin 1))]
   \<and> index_consistent example_host
       (fst (after (insert' example_host [(''id'', Num (Fin 1))] (fst fresh_table) (snd fresh_table))))"
proof -
  let ?r = "insert' example_host [(''id'', Num (Fin 1))] (fst fresh_table) (snd fresh_table)"
  have d: "data (fst fresh_table) = []" and i: "indexes (fst fresh_table) = [(''id'', [])]"
    by code_simp+
  have c: "index_consistent example_host (fst fresh_table)"
    by (simp add: index_consistent_def index_agrees_def d i)
  have e: "fst ?r = Inr [(''id'', Num (Fin 1))]" by code_simp
  then have "?r = (Inr [(''id'', Num (Fin 1))], fst (after ?r), snd (after ?r))"
    by (simp add: after_def prod_eq_iff)
  from insert_keeps_index_consistent [OF c this] c e show ?thesis by simp
qed

lemma build_index_prefix:
  assumes "n \<le> length d"
  shows "index_agrees h (take n d) col
           (fold (\<lambda>i ix. add_pos h (obj_get (d ! i) col) i ix) [0..<n] [])"
  using assms
proof (induction n)
  case 0
  show ?case by (simp add: index_agrees_def)
next
  case (Suc n)
  then have n: "n < length d" by simp
  from Suc have "index_agrees h (take n d) col (fold (\<lambda>i ix. add_pos h (obj_get (d ! i) col) i ix) [0..<n] [])"
    by simp
  from index_agrees_append [OF this, of "d ! n"] n
  show ?case by (simp add: take_Suc_conv_app_nth)
qed

text \<open>
  rebuildIndex leaves the rows alone and makes the column's index agree with them (so
  it agrees with the rows as they are when it is called).
\<close>

theorem rebuildIndex_agrees:
  "data (rebuildIndex h col t) = data t
   \<and> (\<exists>ix. map_of (indexes (rebuildIndex h col t)) col = Some ix \<and> index_agrees h (data t) col ix)"
  using build_index_prefix [of "length (data t)" "data t" h col]
  by (simp add: rebuildIndex_def build_index_def map_of_dict_set)

theorem rebuildIndex_agrees_witness:
  "data (rebuildIndex example_host ''id'' (fst two_rows)) = data (fst two_rows)
   \<and> map_of (indexes (rebuildIndex example_host ''id'' (fst two_rows))) ''id'' = Some [(''1'', [0]), (''2'', [1])]
   \<and> index_agrees example_host (data (fst two_rows)) ''id'' [(''1'', [0]), (''2'', [1])]"
proof -
  have m: "map_of (indexes (rebuildIndex example_host ''id'' (fst two_rows))) ''id'' = Some [(''1'', [0]), (''2'', [1])]"
    by code_simp
  from rebuildIndex_agrees [of example_host "''id''" "fst two_rows"] m show ?thesis by simp
qed

text \<open>
  Claim C1 (index/data consistency after insert, update or delete) fails for delete. On
  the table holding the rows \<open>{id: 1}\<close> and \<open>{id: 2}\<close>, \<open>delete({ id: 1 })\<close>
  removes the first row, so the remaining row \<open>{id: 2}\<close> is at position 0; but the
  index was rebuilt before the row was spliced out, so the bucket of \<open>2\<close> still holds
  position 1 and not 0, and the bucket of the deleted value \<open>1\<close> still holds position 0.
\<close>

theorem delete_leaves_stale_index:
  "fst (delete example_host [(''id'', Lit (Num (Fin 1)))] (fst two_rows) (snd two_rows)) = Inr 1
   \<and> data (fst (after (delete example_host [(''id'', Lit (Num (Fin 1)))] (fst two_rows) (snd two_rows))))
       = [[(''id'', Num (Fin 2))]]
   \<and> bucket (fst (after (delete example_host [(''id'', Lit (Num (Fin 1)))] (fst two_rows) (snd two_rows))))
        ''id'' ''2'' = Some [1]
   \<and> bucket (fst (after (delete example_host [(''id'', Lit (Num (Fin 1)))] (fst two_rows) (snd two_rows))))
        ''id'' ''1'' = Some [0]"
  by code_simp

subsection \<open>Validation errors and failed inserts\<close>

lemma findOne_indexed:
  assumes "has_key (indexes t) col"
  shows "findOne h t [(col, Lit v)] =
           Inr (case bucket t col (to_string h v) of
                  Some (i # rest) \<Rightarrow> Some (row_copy (data t) i) | _ \<Rightarrow> None)"
  using assms by (auto simp: findOne_def find'_def split: option.splits list.splits)

text \<open>
  One pass of the loop appends exactly the column's messages and never throws: the
  uniqueness lookup is a single equality on an indexed column, which takes the index
  path of find.
\<close>

lemma validate_column_errors:
  "\<exists>result'. validate_column h t record cd (errors, result)
              = Inr (errors @ column_errors h t record cd, result')"
  by (auto simp: validate_column_def column_errors_def Let_def findOne_indexed
        holds_duplicate_def obj_get_dict_set split: option.splits list.splits)

lemma validate_loop_errors:
  "\<exists>result'. validate_loop h t record cds (errors, result)
              = Inr (errors @ concat (map (column_errors h t record) cds), result')"
proof (induction cds arbitrary: errors result)
  case Nil
  show ?case by simp
next
  case (Cons cd cds)
  obtain r1 where 1: "validate_column h t record cd (errors, result)
              = Inr (errors @ column_errors h t record cd, r1)"
    using validate_column_errors by blast
  from Cons.IH [of "errors @ column_errors h t record cd" r1] 1
  show ?case by auto
qed

lemma validate_loop_total:
  "\<exists>result'. validate_loop h t record (schema t) ([], [])
              = Inr (record_errors h t record, result')"
  unfolding record_errors_def using validate_loop_errors [of h t "record" "schema t" "[]" "[]"] by simp




subsection \<open>Uniqueness\<close>

text \<open>
  Claim C2 (no two records hold equal values in a unique column) fails on insert for the
  primary key itself. The uniqueness check of validateRecord reports a duplicate only
  when the record found differs from the new one in its primary key, which a record with
  the same key never does: \<open>insert({ id: 1 })\<close> into a table that already holds
  \<open>{id: 1}\<close> succeeds, and two rows with key 1 are stored.
\<close>

theorem insert_accepts_duplicate_key:
  "fst (insert' example_host [(''id'', Num (Fin 1))] (fst two_rows) (snd two_rows))
     = Inr [(''id'', Num (Fin 1))]
   \<and> data (fst (after (insert' example_host [(''id'', Num (Fin 1))] (fst two_rows) (snd two_rows))))
       = [[(''id'', Num (Fin 1))], [(''id'', Num (Fin 2))], [(''id'', Num (Fin 1))]]"
  by code_simp

subsection \<open>Auto-increment\<close>















subsection \<open>Searching with an operator\<close>

text \<open>
  Claim C4 (find with an operator condition scans, with or without an index) fails when
  the column is indexed. \<open>find({ id: { '>': 0 } })\<close> on the example table, whose
  primary key \<open>id\<close> is indexed, looks the operator mapping up as a bucket key and
  returns nothing, where the full scan returns both rows.
\<close>

theorem find_operator_on_indexed_column:
  "find' example_host (fst two_rows) [(''id'', Ops [(''>'', Num (Fin 0))])] = Inr []
   \<and> full_scan example_host [(''id'', Ops [(''>'', Num (Fin 0))])] (data (fst two_rows))
       = Inr [[(''id'', Num (Fin 1))], [(''id'', Num (Fin 2))]]"
  by code_simp

text \<open>On a column without an index the same call is the full scan.\<close>

lemma find_operator_without_index:
  assumes "\<not> has_key (indexes t) col"
  shows "find' h t [(col, Ops ops)] = full_scan h [(col, Ops ops)] (data t)"
  using assms by (simp add: find'_def)

subsection \<open>Primary-key collision on update\<close>

text \<open>
  Claim C6 (an update whose new key collides with another row's key is rejected) fails
  when the other row is itself a target of the update. \<open>update({}, { id: 2 })\<close> on
  the example table strikes both rows from the index before it checks, finds no holder
  of key 2, and writes key 2 into both rows.
\<close>

theorem update_writes_colliding_keys:
  "fst (update example_host [] [(''id'', Num (Fin 2))] (fst two_rows) (snd two_rows)) = Inr 2
   \<and> data (fst (after (update example_host [] [(''id'', Num (Fin 2))] (fst two_rows) (snd two_rows))))
       = [[(''id'', Num (Fin 2))], [(''id'', Num (Fin 2))]]"
  by code_simp

text \<open>No message of validation reads \<open>Duplicate primary key value\<close>.\<close>

lemma join_take:
  assumes "length m \<ge> n"
  shows "take n (join sep (m # ms)) = take n m"
  using assms by (cases ms) auto

lemma column_errors_prefix:
  assumes "m \<in> set (column_errors h t r cd)"
  shows "length m \<ge> 11 \<and> take 11 m \<noteq> ''Duplicate p''"
  using assms by (auto simp: column_errors_def Let_def split: if_splits)

lemma record_errors_prefix:
  assumes "m \<in> set (record_errors h t r)"
  shows "length m \<ge> 11 \<and> take 11 m \<noteq> ''Duplicate p''"
  using assms column_errors_prefix unfolding record_errors_def by fastforce

lemma validateRecord_not_pk_error:
  "validateRecord h t r \<noteq> Inl (Error ''Duplicate primary key value'')"
proof
  assume a: "validateRecord h t r = Inl (Error ''Duplicate primary key value'')"
  obtain res where l: "validate_loop h t r (schema t) ([], []) = Inr (record_errors h t r, res)"
    using validate_loop_total by blast
  with a have ne: "record_errors h t r \<noteq> []"
    and j: "join '', '' (record_errors h t r) = ''Duplicate primary key value''"
    by (auto simp: validateRecord_def split: if_splits)
  from ne obtain m ms where ms: "record_errors h t r = m # ms" by (cases "record_errors h t r") auto
  then have "m \<in> set (record_errors h t r)" by simp
  from record_errors_prefix [OF this] have p: "length m \<ge> 11" "take 11 m \<noteq> ''Duplicate p''" by auto
  from join_take [OF p(1), of "'', ''" ms] j ms have "take 11 m = take 11 ''Duplicate primary key value''"
    by simp
  with p(2) show False by simp
qed


lemma validate_column_result:
  assumes "validate_column h t r cd (e, res) = Inr (e', res')"
  shows "res' = column_result h r cd res"
  using assms
  by (auto simp: validate_column_def column_result_def Let_def
        split: if_splits sum.splits option.splits)

lemma validate_loop_result:
  assumes "validate_loop h t r cds (e, res) = Inr (e', res')"
  shows "res' = fold (column_result h r) cds res"
  using assms
proof (induction cds arbitrary: e res)
  case Nil
  then show ?case by simp
next
  case (Cons cd cds)
  from Cons.prems obtain e1 r1 where 1: "validate_column h t r cd (e, res) = Inr (e1, r1)"
    and 2: "validate_loop h t r cds (e1, r1) = Inr (e', res')"
    by (auto split: sum.splits)
  from Cons.IH [OF 2] validate_column_result [OF 1] show ?case by simp
qed

lemma validateRecord_result:
  assumes "validateRecord h t r = Inr v"
  shows "v = fold (column_result h r) (schema t) []"
  using assms validate_loop_result [of h t r "schema t" "[]" "[]"]
  by (auto simp: validateRecord_def split: sum.splits if_splits)

lemma column_result_key:
  assumes "has_key r k" "has_key r2 k" "obj_get r k = obj_get r2 k" "obj_get res k = obj_get res2 k"
  shows "obj_get (column_result h r cd res) k = obj_get (column_result h r2 cd res2) k"
  using assms by (auto simp: column_result_def Let_def obj_get_dict_set)

lemma fold_column_result_key:
  assumes "has_key r k" "has_key r2 k" "obj_get r k = obj_get r2 k" "obj_get res k = obj_get res2 k"
  shows "obj_get (fold (column_result h r) cds res) k = obj_get (fold (column_result h r2) cds res2) k"
  using assms(4)
proof (induction cds arbitrary: res res2)
  case Nil
  then show ?case by simp
next
  case (Cons cd cds)
  from Cons.IH [OF column_result_key [OF assms(1-3) Cons.prems]] show ?case by simp
qed

lemma fold_set_key:
  assumes "has_key u k \<or> (obj_get acc k = obj_get acc2 k \<and> has_key acc k \<and> has_key acc2 k)"
  shows "obj_get (fold (\<lambda>(k, v). dict_set k v) u acc) k = obj_get (fold (\<lambda>(k, v). dict_set k v) u acc2) k
         \<and> has_key (fold (\<lambda>(k, v). dict_set k v) u acc) k
         \<and> has_key (fold (\<lambda>(k, v). dict_set k v) u acc2) k"
  using assms
proof (induction u arbitrary: acc acc2)
  case Nil
  then show ?case by (auto simp: has_key_def)
next
  case (Cons kv u)
  obtain k1 v1 where kv: "kv = (k1, v1)" by (cases kv)
  have "has_key u k \<or> (obj_get (dict_set k1 v1 acc) k = obj_get (dict_set k1 v1 acc2) k
         \<and> has_key (dict_set k1 v1 acc) k \<and> has_key (dict_set k1 v1 acc2) k)"
    using Cons.prems by (auto simp: kv has_key_dict_set obj_get_dict_set has_key_Cons)
  from Cons.IH [OF this] show ?case by (simp add: kv)
qed

lemma spread_key:
  assumes "has_key u k"
  shows "obj_get (spread a u) k = obj_get (spread a2 u) k" "has_key (spread a u) k"
  using fold_set_key [of u k] assms by (auto simp: spread_def)

lemma validated_key_same:
  assumes "validateRecord h t (spread a u) = Inr v" "validateRecord h t2 (spread a2 u) = Inr v2"
    and "schema t2 = schema t" and "has_key u k"
  shows "obj_get v k = obj_get v2 k"
proof -
  have "obj_get (fold (column_result h (spread a u)) (schema t) []) k
        = obj_get (fold (column_result h (spread a2 u)) (schema t) []) k"
    by (rule fold_column_result_key [OF spread_key(2) [OF assms(4)] spread_key(2) [OF assms(4)]
          spread_key(1) [OF assms(4)]]) simp
  with validateRecord_result [OF assms(1)] validateRecord_result [OF assms(2)] assms(3)
  show ?thesis by simp
qed

lemma findOne_none_indexes:
  assumes "has_key (indexes t) c" "indexes t2 = indexes t"
  shows "(findOne h t2 [(c, Lit K)] = Inr None) = (findOne h t [(c, Lit K)] = Inr None)"
  using assms by (auto simp: findOne_indexed bucket_def split: option.splits list.splits)


lemma pk_name_cong: "primaryKey t2 = primaryKey t \<Longrightarrow> pk_name t2 = pk_name t \<and> has_pk t2 = has_pk t"
  by (simp add: pk_name_def has_pk_def)

lemma clear_after_write:
  assumes ix: "has_key (indexes t) (pk_name t)"
    and v: "validateRecord h t (spread a u) = Inr v"
    and none: "findOne h t [(pk_name t, Lit (obj_get v (pk_name t)))] = Inr None"
    and u: "has_key u (pk_name t)"
    and same: "schema t2 = schema t" "indexes t2 = indexes t" "primaryKey t2 = primaryKey t"
    and v2: "validateRecord h t2 (spread a2 u) = Inr v2"
  shows "findOne h t2 [(pk_name t2, Lit (obj_get v2 (pk_name t2)))] = Inr None"
proof -
  have pk: "pk_name t2 = pk_name t" using pk_name_cong [OF same(3)] by simp
  have "obj_get v (pk_name t) = obj_get v2 (pk_name t)"
    by (rule validated_key_same [OF v v2 same(1) u])
  with none findOne_none_indexes [OF ix same(2), of h "obj_get v (pk_name t)"] pk
  show ?thesis by simp
qed

lemma update_rows_never:
  assumes "has_key (indexes t) (pk_name t)"
    and "has_pk t \<and> has_key u (pk_name t) \<longrightarrow>
           (\<forall>a v. validateRecord h t (spread a u) = Inr v \<longrightarrow>
                  findOne h t [(pk_name t, Lit (obj_get v (pk_name t)))] = Inr None)"
  shows "fst (update_rows h u indices t n) \<noteq> Inl (Error ''Duplicate primary key value'')"
  using assms
proof (induction indices arbitrary: t n)
  case Nil
  show ?case by simp
next
  case (Cons idx rest)
  let ?new = "spread (data t ! idx) u"
  show ?case
  proof (cases "validateRecord h t ?new")
    case (Inl e)
    with validateRecord_not_pk_error [of h t ?new] show ?thesis by (simp add: Let_def)
  next
    case (Inr validated)
    let ?t2 = "t\<lparr>data := (data t)[idx := validated]\<rparr>"
    have same: "schema ?t2 = schema t" "indexes ?t2 = indexes t" "primaryKey ?t2 = primaryKey t" by simp_all
    have pk: "pk_name ?t2 = pk_name t" "has_pk ?t2 = has_pk t" using pk_name_cong [OF same(3)] by simp_all
    have ix2: "has_key (indexes ?t2) (pk_name ?t2)" using Cons.prems(1) pk by simp
    have clear2: "has_pk ?t2 \<and> has_key u (pk_name ?t2) \<longrightarrow>
           (\<forall>a v. validateRecord h ?t2 (spread a u) = Inr v \<longrightarrow>
                  findOne h ?t2 [(pk_name ?t2, Lit (obj_get v (pk_name ?t2)))] = Inr None)"
    proof (intro impI allI)
      fix a v
      assume c: "has_pk ?t2 \<and> has_key u (pk_name ?t2)" and v: "validateRecord h ?t2 (spread a u) = Inr v"
      from c pk have c': "has_pk t \<and> has_key u (pk_name t)" by simp
      with Cons.prems(2) Inr have none: "findOne h t [(pk_name t, Lit (obj_get validated (pk_name t)))] = Inr None"
        by blast
      from clear_after_write [OF Cons.prems(1) Inr none _ same v] c'
      show "findOne h ?t2 [(pk_name ?t2, Lit (obj_get v (pk_name ?t2)))] = Inr None" by simp
    qed
    have cont: "update_rows h u (idx # rest) t n = update_rows h u rest ?t2 (n + 1)"
    proof (cases "has_pk t \<and> has_key u (pk_name t)")
      case True
      with Cons.prems(2) Inr have "findOne h t [(pk_name t, Lit (obj_get validated (pk_name t)))] = Inr None"
        by blast
      with True Inr show ?thesis by (simp add: Let_def)
    next
      case False
      with Inr show ?thesis by (auto simp: Let_def)
    qed
    from Cons.IH [OF ix2 clear2] cont show ?thesis by simp
  qed
qed

lemma update_rows_pk_error:
  assumes ix: "has_key (indexes t) (pk_name t)"
    and err: "update_rows h u indices t n = (Inl (Error ''Duplicate primary key value''), t')"
  shows "t' = t"
proof (cases indices)
  case Nil
  with err show ?thesis by simp
next
  case (Cons idx rest)
  let ?new = "spread (data t ! idx) u"
  show ?thesis
  proof (cases "validateRecord h t ?new")
    case (Inl e)
    with err Cons show ?thesis by (simp add: Let_def)
  next
    case (Inr validated)
    let ?t2 = "t\<lparr>data := (data t)[idx := validated]\<rparr>"
    let ?look = "if has_pk t \<and> has_key u (pk_name t)
                 then findOne h t [(pk_name t, Lit (obj_get validated (pk_name t)))] else Inr None"
    show ?thesis
    proof (cases "?look = Inr None")
      case False
      with err Cons Inr show ?thesis by (auto simp: Let_def split: sum.splits option.splits if_splits)
    next
      case True
      with err Cons Inr have cont: "update_rows h u rest ?t2 (n + 1) = (Inl (Error ''Duplicate primary key value''), t')"
        by (auto simp: Let_def split: if_splits)
      have same: "schema ?t2 = schema t" "indexes ?t2 = indexes t" "primaryKey ?t2 = primaryKey t" by simp_all
      have pk: "pk_name ?t2 = pk_name t" "has_pk ?t2 = has_pk t" using pk_name_cong [OF same(3)] by simp_all
      have ix2: "has_key (indexes ?t2) (pk_name ?t2)" using ix pk by simp
      have clear2: "has_pk ?t2 \<and> has_key u (pk_name ?t2) \<longrightarrow>
           (\<forall>a v. validateRecord h ?t2 (spread a u) = Inr v \<longrightarrow>
                  findOne h ?t2 [(pk_name ?t2, Lit (obj_get v (pk_name ?t2)))] = Inr None)"
      proof (intro impI allI)
        fix a v
        assume c: "has_pk ?t2 \<and> has_key u (pk_name ?t2)" and v: "validateRecord h ?t2 (spread a u) = Inr v"
        from c pk have c': "has_pk t \<and> has_key u (pk_name t)" by simp
        with True have none: "findOne h t [(pk_name t, Lit (obj_get validated (pk_name t)))] = Inr None"
          by simp
        from clear_after_write [OF ix Inr none _ same v] c'
        show "findOne h ?t2 [(pk_name ?t2, Lit (obj_get v (pk_name ?t2)))] = Inr None" by simp
      qed
      from update_rows_never [OF ix2 clear2, of rest "n + 1"] cont show ?thesis by simp
    qed
  qed
qed

lemma has_key_map_indexes: "has_key (map (\<lambda>(col, ix). (col, f col ix)) ixs) k = has_key ixs k"
  by (induction ixs) (auto simp: has_key_def)

text \<open>
  The duplicate-primary-key error of update is raised before any row is written: when
  update fails with it on a table whose primary key is indexed (as the constructor makes
  it), the rows and the files are those before the call. (The new key is the same for
  every target row and the index does not change during the loop, so the lookup that
  raises the error gives the same answer for every row, and the first row decides.)
\<close>

theorem update_key_error_before_write:
  assumes "has_key (indexes t) (pk_name t)"
    and "update h conditions updates t fs = (Inl (Error ''Duplicate primary key value''), t', fs')"
  shows "data t' = data t \<and> fs' = fs"
proof (cases "find' h t conditions")
  case (Inl e)
  with assms(2) show ?thesis by (simp add: update_def)
next
  case (Inr toUpdate)
  let ?indices = "positions t toUpdate"
  let ?t1 = "t\<lparr>indexes := map (\<lambda>(col, ix). (col, remove_entries h ?indices t col ix)) (indexes t)\<rparr>"
  obtain res t2 where r: "update_rows h updates ?indices ?t1 0 = (res, t2)"
    by (cases "update_rows h updates ?indices ?t1 0")
  with assms(2) Inr have res: "res = Inl (Error ''Duplicate primary key value'')" and t': "t' = t2" and fs: "fs' = fs"
    by (auto simp: update_def Let_def split: sum.splits if_splits)
  have "has_key (indexes ?t1) (pk_name ?t1)"
    using assms(1) by (simp add: has_key_map_indexes pk_name_def)
  from update_rows_pk_error [OF this r [unfolded res]] t' fs show ?thesis by simp
qed


theorem update_key_error_before_write_witness:
  "has_key (indexes (fst two_rows)) (pk_name (fst two_rows))
   \<and> fst (update example_host [(''id'', Lit (Num (Fin 1)))] [(''id'', Num (Fin 2))] (fst two_rows) (snd two_rows))
       = Inl (Error ''Duplicate primary key value'')
   \<and> data (fst (after (update example_host [(''id'', Lit (Num (Fin 1)))] [(''id'', Num (Fin 2))]
                          (fst two_rows) (snd two_rows))))
       = data (fst two_rows)
   \<and> snd (after (update example_host [(''id'', Lit (Num (Fin 1)))] [(''id'', Num (Fin 2))]
                     (fst two_rows) (snd two_rows)))
       = snd two_rows"
proof -
  let ?r = "update example_host [(''id'', Lit (Num (Fin 1)))] [(''id'', Num (Fin 2))] (fst two_rows) (snd two_rows)"
  have k: "has_key (indexes (fst two_rows)) (pk_name (fst two_rows))" by code_simp
  have e: "fst ?r = Inl (Error ''Duplicate primary key value'')" by code_simp
  then have "?r = (Inl (Error ''Duplicate primary key value''), fst (after ?r), snd (after ?r))"
    by (simp add: after_def prod_eq_iff)
  from update_key_error_before_write [OF k this] k e show ?thesis by simp
qed

subsection \<open>Unknown column types\<close>




subsection \<open>Round-trip persistence\<close>


















text \<open>
  The data file is first written by the first insert, and loadTables goes by the data
  files: a collection that was created and given no record is not loaded again.
\<close>

lemma reload_loses_empty_collection:
  "map_sum id findAll (getTable (snd (createTable example_host ''t'' id_schema empty_db)) (Some ''t'')) = Inr []
   \<and> getTable (new_Database example_host (files (snd (createTable example_host ''t'' id_schema empty_db)))) (Some ''t'')
       = Inl (Error (''Table '' @ quote ''t'' @ '' does not exist''))"
  by code_simp

subsection \<open>Literal coercion\<close>

lemma literal_same:
  "insert_literal s = coerce_literal s" "update_literal s = coerce_literal s" "condition_literal s = coerce_literal s"
  by (auto simp: insert_literal_def update_literal_def condition_literal_def coerce_literal_def
        startsWith_quote_def endsWith_quote_def slice_inner_def single_quoted_def numeric_looking_def isNaN_def)

lemma insert_values_list:
  assumes "\<forall>v \<in> set vs. v \<noteq> rparen \<and> v \<noteq> comma"
  shows "insert_values (comma_separated vs @ rparen # rest) = Inr (map coerce_literal vs, rparen # rest)"
  using assms
proof (induction vs rule: comma_separated.induct)
  case 1
  show ?case by simp
next
  case (2 v)
  then show ?case by (simp add: skip_comma_def literal_same rparen_def comma_def)
next
  case (3 v w vs)
  then show ?case by (simp add: skip_comma_def literal_same)
qed

lemma set_clause_step:
  assumes "toUpperCase column \<noteq> ''WHERE''"
  shows "set_clause updates (column # ''='' # v # rest)
           = set_clause (dict_set column (coerce_literal v) updates) (skip_comma rest)"
  using assms by (simp add: token_def literal_same)

lemma parseCondition_literal:
  assumes "token tokens (start + 2) = Some v"
  shows "parseCondition tokens start
           = Inr [(key_of (token tokens start), Ops [(key_of (token tokens (start + 1)), coerce_literal v)])]"
  using assms by (simp add: parseCondition_def literal_same)

text \<open>
  Claim C8 as the code has it: the value loop of INSERT, the SET loop of UPDATE and the
  WHERE condition coerce a literal token in the same way, and that way is: quoted text
  becomes a string without its quotes, a numeric-looking token a number, the tokens
  \<open>TRUE\<close>, \<open>true\<close>, \<open>FALSE\<close> and \<open>false\<close> booleans, \<open>NULL\<close> the
  null value, and any other token is left as text.
\<close>

theorem literal_coercion:
  assumes "\<forall>v \<in> set vs. v \<noteq> rparen \<and> v \<noteq> comma"
    and "toUpperCase column \<noteq> ''WHERE''"
    and "token tokens (start + 2) = Some v"
  shows "insert_values (comma_separated vs @ rparen # rest) = Inr (map coerce_literal vs, rparen # rest)
       \<and> set_clause updates (column # ''='' # w # others)
           = set_clause (dict_set column (coerce_literal w) updates) (skip_comma others)
       \<and> parseCondition tokens start
           = Inr [(key_of (token tokens start), Ops [(key_of (token tokens (start + 1)), coerce_literal v)])]
       \<and> coerce_literal s =
           (if single_quoted s then Str (butlast (tl s))
            else if numeric_looking s then Num (string_to_number s)
            else if s = ''TRUE'' \<or> s = ''true'' then Bool True
            else if s = ''FALSE'' \<or> s = ''false'' then Bool False
            else if s = ''NULL'' then Null
            else Str s)"
  using insert_values_list [OF assms(1)] set_clause_step [OF assms(2)] parseCondition_literal [OF assms(3)]
  by (simp add: coerce_literal_def)

theorem literal_coercion_witness:
  "insert_values (tokenize ''1, abc, TRUE) x'') = Inr ([Num (Fin 1), Str ''abc'', Bool True], [rparen, ''x''])
   \<and> set_clause [] (tokenize ''a = 1, b = false WHERE id = 3'')
       = Inr ([(''a'', Num (Fin 1)), (''b'', Bool False)], [''WHERE'', ''id'', ''='', ''3''])
   \<and> parseCondition (tokenize ''name = NULL'') 0 = Inr [(''name'', Ops [(''='', Null)])]"
proof -
  have t1: "tokenize ''1, abc, TRUE) x'' = comma_separated [''1'', ''abc'', ''TRUE''] @ rparen # [''x'']"
    by code_simp
  have v1: "\<forall>v \<in> set [''1'', ''abc'', ''TRUE'']. v \<noteq> rparen \<and> v \<noteq> comma"
    by (simp add: rparen_def comma_def)
  have t2: "tokenize ''a = 1, b = false WHERE id = 3'' = ''a'' # ''='' # ''1'' # tl (tl (tl (tokenize ''a = 1, b = false WHERE id = 3'')))"
    by code_simp
  have c2: "toUpperCase ''a'' \<noteq> ''WHERE''" by code_simp
  have t3: "token (tokenize ''name = NULL'') (0 + 2) = Some ''NULL''" by code_simp
  have k3: "key_of (token (tokenize ''name = NULL'') 0) = ''name''" "key_of (token (tokenize ''name = NULL'') (0 + 1)) = ''=''"
    by code_simp+
  have e: "map coerce_literal [''1'', ''abc'', ''TRUE''] = [Num (Fin 1), Str ''abc'', Bool True]"
    "coerce_literal ''NULL'' = Null" "coerce_literal ''1'' = Num (Fin 1)"
    by code_simp+
  have r2: "set_clause (dict_set ''a'' (Num (Fin 1)) []) (skip_comma (tl (tl (tl (tokenize ''a = 1, b = false WHERE id = 3'')))))
      = Inr ([(''a'', Num (Fin 1)), (''b'', Bool False)], [''WHERE'', ''id'', ''='', ''3''])"
    by code_simp
  from literal_coercion [OF v1 c2 t3, where rest = "[''x'']" and updates = "[]" and w = "''1''"
      and others = "tl (tl (tl (tokenize ''a = 1, b = false WHERE id = 3'')))"]
  show ?thesis
    by (simp only: t1 [symmetric] t2 [symmetric] k3 e r2)
qed

text \<open>
  The claim as stated matches \<open>TRUE\<close> and \<open>FALSE\<close> case-insensitively. The
  token \<open>True\<close> is \<open>TRUE\<close> up to case, and all three places leave it as text.
\<close>

theorem literal_coercion_counterexample:
  "toUpperCase ''True'' = ''TRUE''
   \<and> insert_literal ''True'' = Str ''True''
   \<and> update_literal ''True'' = Str ''True''
   \<and> condition_literal ''True'' = Str ''True''"
  by code_simp

subsection \<open>LIMIT\<close>





end
